theory Spec2Isabelle
  imports Main
begin

section \<open>The affiliate redirect endpoint\<close>

text \<open>
  The repository holds three copies of the route handler \<^verbatim>\<open>GET\<close> of
  \<^verbatim>\<open>/api/redirect/[slug]\<close>: one that answers a matched slug with a 301 redirect
  (\<^verbatim>\<open>src/unnamed/part_000\<close>) and two that answer it with a 200 HTML page opening the
  destination in a new window (\<^verbatim>\<open>src/app/api/redirect/[slug]/route.ts\<close>). The three
  texts are the same, line for line, from the \<^verbatim>\<open>try\<close> down to the selection of
  \<^verbatim>\<open>redirectUrl\<close>; they differ in the response built at the end. The two HTML copies
  differ in the markup only: both interpolate \<^verbatim>\<open>new URL(redirectUrl).hostname\<close> and
  \<^verbatim>\<open>redirectUrl\<close> and send the same status and headers.

  Console output is not modelled. A response holds its header values as the strings
  handed to its constructor; \<^verbatim>\<open>Location\<close> holds the string handed to
  \<^verbatim>\<open>NextResponse.redirect\<close>. Building the default redirect, whose header values are
  literals, is total; building the tracked response raises when the record's id is not
  a legal header value.
\<close>

subsection \<open>Strings of the runtime\<close>

text \<open>
  A slug is a \<^typ>\<open>string\<close>; each \<^typ>\<open>char\<close> stands for one code unit in the range
  0 to 255 (Latin-1). On that range \<^verbatim>\<open>String.prototype.trim\<close> removes the code units
  9 to 13, 32 and 160 from both ends, and \<^verbatim>\<open>String.prototype.toLowerCase\<close> adds 32 to
  the code units 65 to 90 and 192 to 222 (215, the multiplication sign, excepted) and
  keeps every other one.
\<close>

definition isWhiteSpace :: "char \<Rightarrow> bool" where
  "isWhiteSpace c = (of_char c \<in> {9, 10, 11, 12, 13, 32, 160 :: nat})"

definition trim :: "string \<Rightarrow> string" where
  "trim s = rev (dropWhile isWhiteSpace (rev (dropWhile isWhiteSpace s)))"

definition lowerChar :: "char \<Rightarrow> char" where
  "lowerChar c =
     (let n = of_char c :: nat
      in if (65 \<le> n \<and> n \<le> 90) \<or> (192 \<le> n \<and> n \<le> 222 \<and> n \<noteq> 215)
         then char_of (n + 32) else c)"

definition toLowerCase :: "string \<Rightarrow> string" where
  "toLowerCase s = map lowerChar s"

text \<open>The character class \<^verbatim>\<open>[a-z0-9-_]\<close> of the sanitizing regular expression.\<close>

definition slugChar :: "char \<Rightarrow> bool" where
  "slugChar c =
     (let n = of_char c :: nat
      in (97 \<le> n \<and> n \<le> 122) \<or> (48 \<le> n \<and> n \<le> 57) \<or> c = CHR ''-'' \<or> c = CHR ''_'')"

text \<open>\<^verbatim>\<open>.replace(/[^a-z0-9-_]/g, '')\<close>: every character outside the class is deleted.\<close>

definition replaceDisallowed :: "string \<Rightarrow> string" where
  "replaceDisallowed s = filter slugChar s"

text \<open>\<^verbatim>\<open>slug.trim().toLowerCase().replace(/[^a-z0-9-_]/g, '')\<close>, line 44.\<close>

definition sanitize :: "string \<Rightarrow> string" where
  "sanitize s = replaceDisallowed (toLowerCase (trim s))"

text \<open>
  A number of the runtime is an IEEE double. The clicks counter is an integer-valued one
  and is held as the integer it denotes. Every integer of magnitude up to \<^verbatim>\<open>2^53\<close>
  (9007199254740992) is a double; from there to \<^verbatim>\<open>2^54\<close> (18014398509481984) the
  doubles are the even integers, and beyond \<^verbatim>\<open>2^54\<close> they are at least 4 apart.

  \<^verbatim>\<open>n + 1\<close> is the double nearest to the exact sum, the one with the even significand
  when two are equally near: the exact sum up to \<^verbatim>\<open>2^53\<close>; then, the sum lying midway
  between \<open>n\<close> and \<open>n + 2\<close>, the one of the two that is a multiple of 4; and \<open>n\<close>
  itself beyond \<^verbatim>\<open>2^54\<close>.
\<close>

definition addOne :: "int \<Rightarrow> int" where
  "addOne n =
     (if - 9007199254740992 \<le> n \<and> n < 9007199254740992 then n + 1
      else if - 18014398509481984 \<le> n \<and> n < 18014398509481984
           then (if n mod 4 = 0 then n else n + 2)
      else n)"

text \<open>
  \<^verbatim>\<open>String(n)\<close> on an integer-valued number of magnitude up to \<^verbatim>\<open>2^53\<close>: its decimal
  digits, with a minus sign below zero. Beyond that magnitude the runtime prints the
  shortest digits that read back as the double, in exponent notation from \<^verbatim>\<open>10^21\<close>
  on; that text is the parameter \<open>largeText\<close>.
\<close>

fun digits :: "nat \<Rightarrow> string" where
  "digits n =
     (if n < 10 then [char_of (48 + n)]
      else digits (n div 10) @ [char_of (48 + n mod 10)])"

declare digits.simps [simp del]

definition String_of :: "(int \<Rightarrow> string) \<Rightarrow> int \<Rightarrow> string" where
  "String_of largeText n =
     (if n < - 9007199254740992 \<or> 9007199254740992 < n then largeText n
      else if n < 0 then CHR ''-'' # digits (nat (- n))
      else digits (nat n))"

subsection \<open>The table and the store client\<close>

record AffiliateLink =
  link_id :: string
  slug :: string
  redirect_url :: string
  fallback_url :: "string option"
  clicks :: int
  created_at :: string
  active :: bool

record PostgrestError =
  code :: string

datatype exn = StoreException | TypeError

datatype store_op = SelectSingle string | UpdateClicks string int

text \<open>
  What the store does with a request is part of the state, so that a theorem can range
  over every behaviour: a query answers, answers with an error object, answers with
  neither data nor error, or raises; an update is applied, answers with an error object
  and changes nothing, or raises. \<open>requests\<close> records every request sent.
\<close>

datatype select_mode = SelectOk | SelectFails string | SelectNoData | SelectThrows

datatype update_mode = UpdateOk | UpdateFails string | UpdateThrows

record store =
  affiliate_links :: "AffiliateLink list"
  select_mode :: select_mode
  update_mode :: update_mode
  requests :: "store_op list"

text \<open>
  \<^verbatim>\<open>.from('affiliate_links').select('*').eq('slug', s).eq('active', true).single()\<close>:
  the one row that matches, and the error \<^verbatim>\<open>PGRST116\<close> when no row or more than one
  matches.
\<close>

definition select_single ::
  "string \<Rightarrow> store \<Rightarrow> (exn + AffiliateLink option \<times> PostgrestError option) \<times> store" where
  "select_single s db =
     (let db' = db\<lparr>requests := requests db @ [SelectSingle s]\<rparr>
      in case select_mode db of
           SelectThrows \<Rightarrow> (Inl StoreException, db')
         | SelectFails c \<Rightarrow> (Inr (None, Some \<lparr>code = c\<rparr>), db')
         | SelectNoData \<Rightarrow> (Inr (None, None), db')
         | SelectOk \<Rightarrow>
             (case filter (\<lambda>r. slug r = s \<and> active r) (affiliate_links db) of
                [r] \<Rightarrow> (Inr (Some r, None), db')
              | _ \<Rightarrow> (Inr (None, Some \<lparr>code = ''PGRST116''\<rparr>), db')))"

text \<open>\<^verbatim>\<open>.from('affiliate_links').update({ clicks: n }).eq('id', i).select()\<close>.\<close>

definition update_clicks ::
  "string \<Rightarrow> int \<Rightarrow> store \<Rightarrow> (exn + PostgrestError option) \<times> store" where
  "update_clicks i n db =
     (let db' = db\<lparr>requests := requests db @ [UpdateClicks i n]\<rparr>
      in case update_mode db of
           UpdateThrows \<Rightarrow> (Inl StoreException, db')
         | UpdateFails c \<Rightarrow> (Inr (Some \<lparr>code = c\<rparr>), db')
         | UpdateOk \<Rightarrow>
             (Inr None,
              db'\<lparr>affiliate_links :=
                    map (\<lambda>r. if link_id r = i then r\<lparr>clicks := n\<rparr> else r)
                        (affiliate_links db)\<rparr>))"

subsection \<open>Responses\<close>

datatype body = NoBody | JsonBody "(string \<times> string) list" | HtmlBody string string

record response =
  status :: nat
  headers :: "(string \<times> string) list"
  body :: body

text \<open>\<^verbatim>\<open>NextResponse.redirect(url, { status, headers })\<close> sets \<^verbatim>\<open>Location\<close>.\<close>

definition NextResponse_redirect ::
  "string \<Rightarrow> nat \<Rightarrow> (string \<times> string) list \<Rightarrow> response" where
  "NextResponse_redirect u st hs =
     \<lparr>status = st, headers = hs @ [(''Location'', u)], body = NoBody\<rparr>"

definition NextResponse_json :: "(string \<times> string) list \<Rightarrow> nat \<Rightarrow> response" where
  "NextResponse_json obj st =
     \<lparr>status = st, headers = [(''Content-Type'', ''application/json'')], body = JsonBody obj\<rparr>"

definition default_url :: string where
  "default_url = ''https://cogiflow.ai''"

text \<open>The redirect every failure path returns; only the cache lifetime varies.\<close>

definition default_redirect :: "string \<Rightarrow> response" where
  "default_redirect cache =
     NextResponse_redirect default_url 301 [(''Cache-Control'', cache)]"

text \<open>
  The constructor of \<^verbatim>\<open>Headers\<close> removes tabs, line feeds, carriage returns and spaces
  from both ends of a value and raises \<^verbatim>\<open>TypeError\<close> when what is left contains a NUL,
  a line feed or a carriage return. (It also raises on a code unit above 255, which a
  \<^typ>\<open>char\<close> cannot be.)
\<close>

definition isHttpWhitespace :: "char \<Rightarrow> bool" where
  "isHttpWhitespace c = (of_char c \<in> {9, 10, 13, 32 :: nat})"

definition legalHeaderValue :: "string \<Rightarrow> bool" where
  "legalHeaderValue v =
     list_all (\<lambda>c. of_char c \<notin> {0, 10, 13 :: nat})
       (rev (dropWhile isHttpWhitespace (rev (dropWhile isHttpWhitespace v))))"

definition header :: "string \<Rightarrow> response \<Rightarrow> string option" where
  "header name r = map_of (headers r) name"

subsection \<open>URL validation\<close>

text \<open>
  The constructor \<^verbatim>\<open>URL\<close> belongs to the platform. The handler takes it as the
  parameter \<open>newURL\<close>: \<open>None\<close> where the constructor raises, and otherwise the two
  properties the handler reads.
\<close>

record url =
  protocol :: string
  hostname :: string

definition isValidUrl :: "(string \<Rightarrow> url option) \<Rightarrow> string \<Rightarrow> bool" where
  "isValidUrl newURL urlString =
     (case newURL urlString of
        None \<Rightarrow> False
      | Some u \<Rightarrow> protocol u = ''http:'' \<or> protocol u = ''https:'')"

text \<open>Lines 114 to 126: the choice of \<^verbatim>\<open>redirectUrl\<close>.\<close>

definition determineRedirectUrl :: "(string \<Rightarrow> url option) \<Rightarrow> AffiliateLink \<Rightarrow> string" where
  "determineRedirectUrl newURL affiliateLink =
     (let redirectUrl = redirect_url affiliateLink;
          redirectUrl =
            (if redirectUrl = [] \<or> \<not> isValidUrl newURL redirectUrl
             then (case fallback_url affiliateLink of
                     None \<Rightarrow> default_url
                   | Some f \<Rightarrow> if f = [] then default_url else f)
             else redirectUrl)
      in if \<not> isValidUrl newURL redirectUrl then default_url else redirectUrl)"

subsection \<open>The handlers\<close>

datatype slug_param = Missing | NotAString | Slug string

text \<open>\<^verbatim>\<open>(affiliateLink.clicks || 0) + 1\<close>, a sum of doubles.\<close>

definition nextClicks :: "AffiliateLink \<Rightarrow> int" where
  "nextClicks affiliateLink =
     addOne (if clicks affiliateLink = 0 then 0 else clicks affiliateLink)"

definition tracking_headers :: "(int \<Rightarrow> string) \<Rightarrow> AffiliateLink \<Rightarrow> (string \<times> string) list" where
  "tracking_headers largeText affiliateLink =
     [(''Cache-Control'', ''no-cache, no-store, must-revalidate''),
      (''X-Cogiflow-Affiliate'', link_id affiliateLink),
      (''X-Cogiflow-Clicks'', String_of largeText (nextClicks affiliateLink))]"

text \<open>
  The last statement of the redirecting copy and of the HTML copies. Of the header
  values only the id can be illegal: the others are literals and the text of a number.
  In the HTML copies the page is built first, so \<^verbatim>\<open>new URL(redirectUrl)\<close> raises before
  the headers do.
\<close>

definition emit_redirect ::
  "(string \<Rightarrow> url option) \<Rightarrow> (int \<Rightarrow> string) \<Rightarrow> AffiliateLink \<Rightarrow> string
   \<Rightarrow> exn + response" where
  "emit_redirect newURL largeText affiliateLink redirectUrl =
     (if legalHeaderValue (link_id affiliateLink)
      then Inr (NextResponse_redirect redirectUrl 301
                  (tracking_headers largeText affiliateLink))
      else Inl TypeError)"

definition emit_html ::
  "(string \<Rightarrow> url option) \<Rightarrow> (int \<Rightarrow> string) \<Rightarrow> AffiliateLink \<Rightarrow> string
   \<Rightarrow> exn + response" where
  "emit_html newURL largeText affiliateLink redirectUrl =
     (case newURL redirectUrl of
        None \<Rightarrow> Inl TypeError
      | Some u \<Rightarrow>
          if legalHeaderValue (link_id affiliateLink)
          then Inr \<lparr>status = 200,
                    headers = (''Content-Type'', ''text/html; charset=utf-8'')
                              # tracking_headers largeText affiliateLink,
                    body = HtmlBody (hostname u) redirectUrl\<rparr>
          else Inl TypeError)"

text \<open>The body of the \<^verbatim>\<open>try\<close>; \<open>Inl\<close> is a raised exception.\<close>

type_synonym emitter =
  "(string \<Rightarrow> url option) \<Rightarrow> (int \<Rightarrow> string) \<Rightarrow> AffiliateLink \<Rightarrow> string \<Rightarrow> exn + response"

definition GET_try ::
  "emitter \<Rightarrow> (string \<Rightarrow> url option) \<Rightarrow> (int \<Rightarrow> string) \<Rightarrow> slug_param \<Rightarrow> store
   \<Rightarrow> (exn + response) \<times> store" where
  "GET_try emit newURL largeText param db =
     (case param of
        Missing \<Rightarrow> (Inr (default_redirect ''public, max-age=300''), db)
      | NotAString \<Rightarrow> (Inr (default_redirect ''public, max-age=300''), db)
      | Slug s \<Rightarrow>
          if s = [] \<or> trim s = [] then (Inr (default_redirect ''public, max-age=300''), db)
          else
            let sanitizedSlug = replaceDisallowed (toLowerCase (trim s))
            in if sanitizedSlug \<noteq> toLowerCase (trim s)
               then (Inr (default_redirect ''public, max-age=300''), db)
               else
                 (case select_single sanitizedSlug db of
                    (Inl e, db1) \<Rightarrow> (Inl e, db1)
                  | (Inr (data, Some fetchError), db1) \<Rightarrow>
                      if code fetchError = ''PGRST116''
                      then (Inr (default_redirect ''public, max-age=300''), db1)
                      else (Inr (default_redirect ''public, max-age=60''), db1)
                  | (Inr (None, None), db1) \<Rightarrow>
                      (Inr (default_redirect ''public, max-age=300''), db1)
                  | (Inr (Some affiliateLink, None), db1) \<Rightarrow>
                      (case update_clicks (link_id affiliateLink) (nextClicks affiliateLink) db1 of
                         (Inl e, db2) \<Rightarrow> (Inl e, db2)
                       | (Inr updateError, db2) \<Rightarrow>
                           (emit newURL largeText affiliateLink
                              (determineRedirectUrl newURL affiliateLink), db2))))"

text \<open>The \<^verbatim>\<open>catch\<close>: whatever was raised, the default redirect, cached for a minute.\<close>

definition GET_with ::
  "emitter \<Rightarrow> (string \<Rightarrow> url option) \<Rightarrow> (int \<Rightarrow> string) \<Rightarrow> slug_param \<Rightarrow> store
   \<Rightarrow> response \<times> store" where
  "GET_with emit newURL largeText param db =
     (case GET_try emit newURL largeText param db of
        (Inl e, db') \<Rightarrow> (default_redirect ''public, max-age=60'', db')
      | (Inr r, db') \<Rightarrow> (r, db'))"

definition GET ::
  "(string \<Rightarrow> url option) \<Rightarrow> (int \<Rightarrow> string) \<Rightarrow> slug_param \<Rightarrow> store \<Rightarrow> response \<times> store" where
  "GET = GET_with emit_redirect"

definition GET_html ::
  "(string \<Rightarrow> url option) \<Rightarrow> (int \<Rightarrow> string) \<Rightarrow> slug_param \<Rightarrow> store \<Rightarrow> response \<times> store" where
  "GET_html = GET_with emit_html"

definition POST :: "store \<Rightarrow> response \<times> store" where
  "POST db = (NextResponse_json [(''error'', ''Method not allowed'')] 405, db)"

definition PUT :: "store \<Rightarrow> response \<times> store" where
  "PUT db = (NextResponse_json [(''error'', ''Method not allowed'')] 405, db)"

definition DELETE :: "store \<Rightarrow> response \<times> store" where
  "DELETE db = (NextResponse_json [(''error'', ''Method not allowed'')] 405, db)"

subsection \<open>Notions the properties are stated with\<close>

text \<open>
  A request matches a record when its raw slug, trimmed and lowercased, is not empty and
  has only characters of the class, the store answers queries, and exactly one active
  row carries that slug.
\<close>

definition matched :: "slug_param \<Rightarrow> store \<Rightarrow> AffiliateLink option" where
  "matched param db =
     (case param of
        Slug s \<Rightarrow>
          if trim s \<noteq> [] \<and> list_all slugChar (toLowerCase (trim s))
             \<and> select_mode db = SelectOk
          then (case filter (\<lambda>r. slug r = toLowerCase (trim s) \<and> active r)
                       (affiliate_links db) of
                  [r] \<Rightarrow> Some r
                | _ \<Rightarrow> None)
          else None
      | _ \<Rightarrow> None)"

text \<open>
  The three-way cascade as the specification words it: the primary URL when it is
  not empty and valid, otherwise the fallback URL when it is not empty and valid, otherwise
  the default URL.
\<close>

definition cascade :: "(string \<Rightarrow> url option) \<Rightarrow> AffiliateLink \<Rightarrow> string" where
  "cascade newURL affiliateLink =
     (if redirect_url affiliateLink \<noteq> [] \<and> isValidUrl newURL (redirect_url affiliateLink)
      then redirect_url affiliateLink
      else (case fallback_url affiliateLink of
              Some f \<Rightarrow> if f \<noteq> [] \<and> isValidUrl newURL f then f else default_url
            | None \<Rightarrow> default_url))"

text \<open>
  Reading a \<^verbatim>\<open>Cache-Control\<close> value: its directives are separated by commas; the
  lifetime is the number of the \<^verbatim>\<open>max-age\<close> directive, and \<^verbatim>\<open>no-store\<close> forbids
  keeping the response.
\<close>

fun split_on :: "char \<Rightarrow> string \<Rightarrow> string list" where
  "split_on d [] = [[]]"
| "split_on d (c # cs) =
     (if c = d then [] # split_on d cs
      else (case split_on d cs of [] \<Rightarrow> [[c]] | x # xs \<Rightarrow> (c # x) # xs))"

fun strip_prefix :: "string \<Rightarrow> string \<Rightarrow> string option" where
  "strip_prefix [] s = Some s"
| "strip_prefix (p # ps) [] = None"
| "strip_prefix (p # ps) (c # cs) = (if p = c then strip_prefix ps cs else None)"

definition directives :: "string \<Rightarrow> string list" where
  "directives v = map trim (split_on CHR '','' v)"

definition isDigit :: "char \<Rightarrow> bool" where
  "isDigit c = (48 \<le> (of_char c :: nat) \<and> (of_char c :: nat) \<le> 57)"

definition decimal :: "string \<Rightarrow> nat" where
  "decimal ds = foldl (\<lambda>a c. 10 * a + (of_char c - 48)) 0 ds"

definition max_age :: "string \<Rightarrow> nat option" where
  "max_age v =
     (case List.map_filter (strip_prefix ''max-age='') (directives v) of
        [] \<Rightarrow> None
      | ds # _ \<Rightarrow> if ds \<noteq> [] \<and> list_all isDigit ds then Some (decimal ds) else None)"

definition cache_lifetime :: "response \<Rightarrow> nat option" where
  "cache_lifetime r =
     (case header ''Cache-Control'' r of None \<Rightarrow> None | Some v \<Rightarrow> max_age v)"

definition caching_disabled :: "response \<Rightarrow> bool" where
  "caching_disabled r =
     (case header ''Cache-Control'' r of
        None \<Rightarrow> False
      | Some v \<Rightarrow> ''no-store'' \<in> set (directives v))"

subsection \<open>Concrete inputs\<close>

text \<open>
  An instance of the constructor for evaluation at concrete inputs: it accepts
  \<^verbatim>\<open>http://\<close> and \<^verbatim>\<open>https://\<close> followed by a host, reads \<^verbatim>\<open>ftp:\<close> as a URL of
  another scheme, and raises on everything else.
\<close>

definition hostOf :: "string \<Rightarrow> string" where
  "hostOf s = takeWhile (\<lambda>c. c \<noteq> CHR ''/'') s"

definition sampleURL :: "string \<Rightarrow> url option" where
  "sampleURL s =
     (case strip_prefix ''https://'' s of
        Some r \<Rightarrow> if hostOf r = [] then None
                  else Some \<lparr>protocol = ''https:'', hostname = hostOf r\<rparr>
      | None \<Rightarrow>
          (case strip_prefix ''http://'' s of
             Some r \<Rightarrow> if hostOf r = [] then None
                       else Some \<lparr>protocol = ''http:'', hostname = hostOf r\<rparr>
           | None \<Rightarrow>
               (case strip_prefix ''ftp://'' s of
                  Some r \<Rightarrow> if hostOf r = [] then None
                            else Some \<lparr>protocol = ''ftp:'', hostname = hostOf r\<rparr>
                | None \<Rightarrow> None)))"

text \<open>The record of the specification's scenario, with an id and a timestamp.\<close>

text \<open>An instance of \<open>largeText\<close> for evaluation; no concrete input below reaches it.\<close>

definition sampleLargeText :: "int \<Rightarrow> string" where
  "sampleLargeText n = ''1e+21''"

definition tool :: AffiliateLink where
  "tool =
     \<lparr>link_id = ''7'', slug = ''tool'', redirect_url = ''https://partner.example/x'',
      fallback_url = Some ''https://cogiflow.ai'', clicks = 5,
      created_at = ''2024-01-01'', active = True\<rparr>"

definition sample_store :: "select_mode \<Rightarrow> update_mode \<Rightarrow> store" where
  "sample_store sm um =
     \<lparr>affiliate_links = [tool], select_mode = sm, update_mode = um, requests = []\<rparr>"

text \<open>
  The same record with a line feed inside its id, and with its counter at \<^verbatim>\<open>2^53\<close>.
\<close>

definition line_feed_id :: AffiliateLink where
  "line_feed_id = tool\<lparr>link_id := [CHR ''7'', CHR 0x0A, CHR ''8'']\<rparr>"

definition saturated :: AffiliateLink where
  "saturated = tool\<lparr>clicks := 9007199254740992\<rparr>"

definition store_with :: "AffiliateLink \<Rightarrow> select_mode \<Rightarrow> update_mode \<Rightarrow> store" where
  "store_with r sm um =
     \<lparr>affiliate_links = [r], select_mode = sm, update_mode = um, requests = []\<rparr>"

section \<open>Properties\<close>

subsection \<open>Sanitizing\<close>

lemma slugChar_not_space: "slugChar c \<Longrightarrow> \<not> isWhiteSpace c"
  by (auto simp: slugChar_def isWhiteSpace_def Let_def)

lemma slugChar_lower: "slugChar c \<Longrightarrow> lowerChar c = c"
  by (auto simp: slugChar_def lowerChar_def Let_def)

lemma trim_Nil: "trim [] = []"
  by (simp add: trim_def)


lemma trim_keeps:
  assumes "s \<noteq> []" and "\<not> isWhiteSpace (hd s)" and "\<not> isWhiteSpace (last s)"
  shows "trim s = s"
proof -
  have front: "dropWhile isWhiteSpace s = s"
    using assms(1,2) by (cases s) simp_all
  have rear: "dropWhile isWhiteSpace (rev s) = rev s"
    using assms(3) by (simp add: dropWhile_eq_self_iff hd_rev)
  show ?thesis
    unfolding trim_def front rear by simp
qed

lemma trim_slugChars: "list_all slugChar s \<Longrightarrow> trim s = s"
proof (cases "s = []")
  case True
  then show ?thesis by (simp add: trim_Nil)
next
  case False
  assume all: "list_all slugChar s"
  from False have "hd s \<in> set s" and "last s \<in> set s" by simp_all
  with all have "slugChar (hd s)" and "slugChar (last s)"
    by (simp_all add: list_all_iff)
  then show ?thesis
    using False by (simp add: trim_keeps slugChar_not_space)
qed

lemma toLowerCase_slugChars: "list_all slugChar s \<Longrightarrow> toLowerCase s = s"
  by (induction s) (simp_all add: toLowerCase_def slugChar_lower)

lemma replaceDisallowed_fix: "replaceDisallowed s = s \<longleftrightarrow> list_all slugChar s"
  by (simp add: replaceDisallowed_def filter_id_conv list_all_iff)

lemma replaceDisallowed_slugChars: "list_all slugChar (replaceDisallowed s)"
  by (simp add: replaceDisallowed_def list_all_iff)

lemma sanitize_slugChars: "list_all slugChar (sanitize s)"
  by (simp add: sanitize_def replaceDisallowed_slugChars)

lemma sanitize_fix: "list_all slugChar s \<Longrightarrow> sanitize s = s"
  by (simp add: sanitize_def trim_slugChars toLowerCase_slugChars replaceDisallowed_fix)

text \<open>Below \<^verbatim>\<open>2^53\<close> in magnitude the sum of doubles is the sum of integers.\<close>

lemma nextClicks_plus_one:
  assumes "- 9007199254740992 \<le> clicks l" and "clicks l < 9007199254740992"
  shows "nextClicks l = clicks l + 1"
  using assms by (simp add: nextClicks_def addOne_def)

text \<open>The text \<^verbatim>\<open>String\<close> produces reads back as the number.\<close>

lemma decimal_snoc: "decimal (ds @ [c]) = 10 * decimal ds + (of_char c - 48)"
  by (simp add: decimal_def)

lemma decimal_digits: "decimal (digits n) = n"
proof (induction n rule: digits.induct)
  case (1 n)
  show ?case
  proof (cases "n < 10")
    case True
    then show ?thesis
      by (simp add: digits.simps [of n] decimal_def)
  next
    case False
    have "(48 + n mod 10) mod 256 = 48 + n mod 10"
      by (simp add: mod_less)
    with False "1.IH" show ?thesis
      by (simp add: digits.simps [of n] decimal_snoc)
  qed
qed

lemma decimal_String_of:
  assumes "0 \<le> n" and "n \<le> 9007199254740992"
  shows "int (decimal (String_of largeText n)) = n"
  using assms by (simp add: String_of_def decimal_digits)

lemma filter_single:
  assumes "filter P xs = [r]"
  shows "P r \<and> r \<in> set xs"
proof -
  from assms have "r \<in> set (filter P xs)" by simp
  then show ?thesis by simp
qed

lemma GET_try_invalid:
  assumes "param = Missing \<or> param = NotAString
           \<or> (\<exists>s. param = Slug s \<and> (trim s = [] \<or> \<not> list_all slugChar (toLowerCase (trim s))))"
  shows "GET_try emit newURL largeText param db = (Inr (default_redirect ''public, max-age=300''), db)"
  using assms
  by (auto simp: GET_try_def trim_Nil replaceDisallowed_fix Let_def)

lemma GET_try_valid:
  assumes "trim s \<noteq> []" and "list_all slugChar (toLowerCase (trim s))"
  shows "GET_try emit newURL largeText (Slug s) db =
     (case select_single (toLowerCase (trim s)) db of
        (Inl e, db1) \<Rightarrow> (Inl e, db1)
      | (Inr (data, Some fetchError), db1) \<Rightarrow>
          if code fetchError = ''PGRST116''
          then (Inr (default_redirect ''public, max-age=300''), db1)
          else (Inr (default_redirect ''public, max-age=60''), db1)
      | (Inr (None, None), db1) \<Rightarrow> (Inr (default_redirect ''public, max-age=300''), db1)
      | (Inr (Some affiliateLink, None), db1) \<Rightarrow>
          (case update_clicks (link_id affiliateLink) (nextClicks affiliateLink) db1 of
             (Inl e, db2) \<Rightarrow> (Inl e, db2)
           | (Inr updateError, db2) \<Rightarrow>
               (emit newURL largeText affiliateLink (determineRedirectUrl newURL affiliateLink), db2)))"
proof -
  from assms(1) have "s \<noteq> []" by (auto simp: trim_Nil)
  moreover from assms(2) have "replaceDisallowed (toLowerCase (trim s)) = toLowerCase (trim s)"
    by (simp add: replaceDisallowed_fix)
  ultimately show ?thesis
    using assms(1) by (simp add: GET_try_def Let_def)
qed

lemma matched_SomeD:
  assumes "matched param db = Some l"
  obtains s where "param = Slug s" and "trim s \<noteq> []"
    and "list_all slugChar (toLowerCase (trim s))" and "select_mode db = SelectOk"
    and "filter (\<lambda>r. slug r = toLowerCase (trim s) \<and> active r) (affiliate_links db) = [l]"
  using assms
  by (auto simp: matched_def split: slug_param.splits if_splits list.splits)

lemma GET_try_matched:
  assumes "matched param db = Some l"
  shows "GET_try emit newURL largeText param db =
     (case update_clicks (link_id l) (nextClicks l)
             (db\<lparr>requests := requests db @ [SelectSingle (slug l)]\<rparr>) of
        (Inl e, db2) \<Rightarrow> (Inl e, db2)
      | (Inr updateError, db2) \<Rightarrow> (emit newURL largeText l (determineRedirectUrl newURL l), db2))"
proof -
  from assms obtain s where s: "param = Slug s" "trim s \<noteq> []"
      "list_all slugChar (toLowerCase (trim s))" "select_mode db = SelectOk"
      "filter (\<lambda>r. slug r = toLowerCase (trim s) \<and> active r) (affiliate_links db) = [l]"
    by (rule matched_SomeD)
  from s(5) have "slug l = toLowerCase (trim s)"
    using filter_single [of "\<lambda>r. slug r = toLowerCase (trim s) \<and> active r"] by blast
  then show ?thesis
    using s by (simp add: GET_try_valid select_single_def)
qed

lemmas eval_strings =
  trim_def isWhiteSpace_def toLowerCase_def lowerChar_def replaceDisallowed_def
  slugChar_def sanitize_def Let_def char_of_def bit_Suc_0_iff

lemma GET_with_invalid:
  assumes "param = Missing \<or> param = NotAString
           \<or> (\<exists>s. param = Slug s \<and> (trim s = [] \<or> \<not> list_all slugChar (toLowerCase (trim s))))"
  shows "GET_with emit newURL largeText param db = (default_redirect ''public, max-age=300'', db)"
  by (simp add: GET_with_def GET_try_invalid [OF assms])

lemma default_redirect_shape:
  "status (default_redirect cache) = 301
   \<and> header ''Location'' (default_redirect cache) = Some ''https://cogiflow.ai''
   \<and> header ''Cache-Control'' (default_redirect cache) = Some cache
   \<and> body (default_redirect cache) = NoBody"
  by (simp add: default_redirect_def NextResponse_redirect_def header_def default_url_def)

text \<open>
  Claim C1. When the trimmed, lowercased slug has a character outside \<^verbatim>\<open>[a-z0-9-_]\<close>,
  both copies of \<^verbatim>\<open>GET\<close> answer with the default redirect (status 301, \<^verbatim>\<open>Location\<close>
  the default URL) and hand the store back as it was, with no request sent: the
  sanitized form is compared with the input and never looked up in its place.
\<close>

theorem disallowed_character_rejected:
  assumes "\<exists>c \<in> set (toLowerCase (trim s)). \<not> slugChar c"
  shows "GET newURL largeText (Slug s) db = (default_redirect ''public, max-age=300'', db)
       \<and> GET_html newURL largeText (Slug s) db = (default_redirect ''public, max-age=300'', db)
       \<and> status (fst (GET newURL largeText (Slug s) db)) = 301
       \<and> header ''Location'' (fst (GET newURL largeText (Slug s) db)) = Some ''https://cogiflow.ai''
       \<and> requests (snd (GET newURL largeText (Slug s) db)) = requests db"
proof -
  from assms have "\<not> list_all slugChar (toLowerCase (trim s))"
    by (simp add: list_all_iff)
  then have "GET_with emit newURL largeText (Slug s) db = (default_redirect ''public, max-age=300'', db)"
    for emit
    by (simp add: GET_with_invalid)
  then show ?thesis
    by (simp add: GET_def GET_html_def default_redirect_shape)
qed

theorem disallowed_character_rejected_witness:
  "(\<exists>c \<in> set (toLowerCase (trim ''to/ol '')). \<not> slugChar c)
   \<and> sanitize ''to/ol '' = ''tool''
   \<and> matched (Slug ''tool'') (sample_store SelectOk UpdateOk) = Some tool
   \<and> GET sampleURL sampleLargeText (Slug ''to/ol '') (sample_store SelectOk UpdateOk)
       = (default_redirect ''public, max-age=300'', sample_store SelectOk UpdateOk)"
proof -
  have h: "\<exists>c \<in> set (toLowerCase (trim ''to/ol '')). \<not> slugChar c"
    by (simp add: eval_strings)
  have "sanitize ''to/ol '' = ''tool''"
    by (simp add: eval_strings)
  moreover have "matched (Slug ''tool'') (sample_store SelectOk UpdateOk) = Some tool"
    by (simp add: matched_def sample_store_def tool_def eval_strings)
  ultimately show ?thesis
    using h disallowed_character_rejected
      [OF h, where newURL = sampleURL and largeText = sampleLargeText
         and db = "sample_store SelectOk UpdateOk"]
    by simp
qed



text \<open>
  Claim C8. \<^verbatim>\<open>POST\<close>, \<^verbatim>\<open>PUT\<close> and \<^verbatim>\<open>DELETE\<close> answer with status 405 and the JSON
  object \<^verbatim>\<open>{"error": "Method not allowed"}\<close>, and leave the store, its request log
  included, unchanged.
\<close>

theorem other_methods_not_allowed:
  "status (fst (POST db)) = 405
   \<and> body (fst (POST db)) = JsonBody [(''error'', ''Method not allowed'')]
   \<and> snd (POST db) = db
   \<and> PUT db = POST db \<and> DELETE db = POST db"
  by (simp add: POST_def PUT_def DELETE_def NextResponse_json_def)

theorem other_methods_not_allowed_witness:
  "status (fst (POST (sample_store SelectOk UpdateOk))) = 405
   \<and> snd (DELETE (sample_store SelectOk UpdateOk)) = sample_store SelectOk UpdateOk"
  using other_methods_not_allowed [of "sample_store SelectOk UpdateOk"]
  by simp

subsection \<open>The paths of the handler\<close>

lemma update_clicks_store:
  "snd (update_clicks i n db) =
     (if update_mode db = UpdateOk
      then db\<lparr>requests := requests db @ [UpdateClicks i n],
              affiliate_links :=
                map (\<lambda>r. if link_id r = i then r\<lparr>clicks := n\<rparr> else r) (affiliate_links db)\<rparr>
      else db\<lparr>requests := requests db @ [UpdateClicks i n]\<rparr>)"
  by (cases "update_mode db") (simp_all add: update_clicks_def)

lemma GET_with_matched:
  assumes "matched param db = Some l"
  shows "GET_with emit newURL largeText param db =
     (if update_mode db = UpdateThrows then default_redirect ''public, max-age=60''
      else (case emit newURL largeText l (determineRedirectUrl newURL l) of
              Inl e \<Rightarrow> default_redirect ''public, max-age=60''
            | Inr r \<Rightarrow> r),
      snd (update_clicks (link_id l) (nextClicks l)
             (db\<lparr>requests := requests db @ [SelectSingle (slug l)]\<rparr>)))"
  by (cases "update_mode db")
     (simp_all add: GET_with_def GET_try_matched [OF assms] update_clicks_def
        split: sum.splits)

lemma GET_with_unmatched:
  assumes "matched param db = None"
  shows "fst (GET_with emit newURL largeText param db) = default_redirect ''public, max-age=300''
       \<or> fst (GET_with emit newURL largeText param db) = default_redirect ''public, max-age=60''"
proof (cases "\<exists>s. param = Slug s \<and> trim s \<noteq> [] \<and> list_all slugChar (toLowerCase (trim s))")
  case False
  then have "param = Missing \<or> param = NotAString
      \<or> (\<exists>s. param = Slug s \<and> (trim s = [] \<or> \<not> list_all slugChar (toLowerCase (trim s))))"
    by (cases param) auto
  then show ?thesis
    by (simp add: GET_with_invalid)
next
  case True
  then obtain s where s: "param = Slug s" "trim s \<noteq> []"
      "list_all slugChar (toLowerCase (trim s))"
    by blast
  show ?thesis
  proof (cases "select_mode db")
    case SelectOk
    with assms s show ?thesis
      by (simp add: GET_with_def GET_try_valid select_single_def matched_def
          split: list.splits)
  next
    case (SelectFails c)
    with s show ?thesis
      by (simp add: GET_with_def GET_try_valid select_single_def)
  next
    case SelectNoData
    with s show ?thesis
      by (simp add: GET_with_def GET_try_valid select_single_def)
  next
    case SelectThrows
    with s show ?thesis
      by (simp add: GET_with_def GET_try_valid select_single_def)
  qed
qed

lemma matched_update_mode: "matched param (db\<lparr>update_mode := m\<rparr>) = matched param db"
  by (cases param) (simp_all add: matched_def)

lemma matched_member:
  assumes "matched param db = Some l"
  shows "l \<in> set (affiliate_links db)"
proof -
  from assms obtain s where
    "filter (\<lambda>r. slug r = toLowerCase (trim s) \<and> active r) (affiliate_links db) = [l]"
    by (rule matched_SomeD)
  then show ?thesis
    using filter_single by fast
qed

lemma determineRedirectUrl_cascade: "determineRedirectUrl newURL l = cascade newURL l"
  by (simp add: determineRedirectUrl_def cascade_def Let_def split: option.splits)

lemma cascade_valid:
  "isValidUrl newURL default_url \<Longrightarrow> isValidUrl newURL (cascade newURL l)"
  by (simp add: cascade_def split: option.splits)

lemma header_redirect:
  "header ''Location'' (NextResponse_redirect u 301 (tracking_headers largeText l)) = Some u
   \<and> header ''X-Cogiflow-Clicks'' (NextResponse_redirect u 301 (tracking_headers largeText l))
       = Some (String_of largeText (nextClicks l))
   \<and> header ''X-Cogiflow-Affiliate'' (NextResponse_redirect u 301 (tracking_headers largeText l))
       = Some (link_id l)
   \<and> header ''Cache-Control'' (NextResponse_redirect u 301 (tracking_headers largeText l))
       = Some ''no-cache, no-store, must-revalidate''"
  by (simp add: header_def NextResponse_redirect_def tracking_headers_def)

lemma header_html:
  "header ''X-Cogiflow-Clicks''
     \<lparr>status = 200,
      headers = (''Content-Type'', ''text/html; charset=utf-8'') # tracking_headers largeText l,
      body = b\<rparr> = Some (String_of largeText (nextClicks l))
   \<and> header ''Cache-Control''
     \<lparr>status = 200,
      headers = (''Content-Type'', ''text/html; charset=utf-8'') # tracking_headers largeText l,
      body = b\<rparr> = Some ''no-cache, no-store, must-revalidate''"
  by (simp add: header_def tracking_headers_def)

lemma header_default:
  "header ''X-Cogiflow-Clicks'' (default_redirect cache) = None"
  by (simp add: header_def default_redirect_def NextResponse_redirect_def)

text \<open>A matched record whose update does not raise and whose id is a legal header value.\<close>

lemma GET_matched:
  assumes "matched param db = Some l" and "update_mode db \<noteq> UpdateThrows"
    and "legalHeaderValue (link_id l)"
  shows "fst (GET newURL largeText param db) =
     NextResponse_redirect (determineRedirectUrl newURL l) 301 (tracking_headers largeText l)"
  using assms by (simp add: GET_def GET_with_matched emit_redirect_def)

lemma GET_html_matched:
  assumes "matched param db = Some l" and "update_mode db \<noteq> UpdateThrows"
    and "legalHeaderValue (link_id l)"
    and "newURL (determineRedirectUrl newURL l) = Some u"
  shows "fst (GET_html newURL largeText param db) =
     \<lparr>status = 200,
      headers = (''Content-Type'', ''text/html; charset=utf-8'') # tracking_headers largeText l,
      body = HtmlBody (hostname u) (determineRedirectUrl newURL l)\<rparr>"
  using assms by (simp add: GET_html_def GET_with_matched emit_html_def)

text \<open>A matched record whose update raises, or whose id makes the headers raise.\<close>

lemma GET_matched_raise:
  assumes "matched param db = Some l"
    and "update_mode db = UpdateThrows \<or> \<not> legalHeaderValue (link_id l)"
  shows "fst (GET newURL largeText param db) = default_redirect ''public, max-age=60''"
    and "fst (GET_html newURL largeText param db) = default_redirect ''public, max-age=60''"
  using assms
  by (auto simp: GET_def GET_html_def GET_with_matched emit_redirect_def emit_html_def
      split: option.splits)

lemma GET_html_no_url:
  assumes "matched param db = Some l" and "newURL (determineRedirectUrl newURL l) = None"
  shows "fst (GET_html newURL largeText param db) = default_redirect ''public, max-age=60''"
  using assms by (simp add: GET_html_def GET_with_matched emit_html_def)

lemma GET_store_matched:
  assumes "matched param db = Some l"
  shows "snd (GET newURL largeText param db) =
           snd (update_clicks (link_id l) (nextClicks l)
                  (db\<lparr>requests := requests db @ [SelectSingle (slug l)]\<rparr>))"
    and "snd (GET_html newURL largeText param db) = snd (GET newURL largeText param db)"
  using assms by (simp_all add: GET_def GET_html_def GET_with_matched)

lemmas eval_headers = legalHeaderValue_def isHttpWhitespace_def

subsection \<open>Destination and counter\<close>

text \<open>
  Claim C2. For every matched record the destination selected by lines 114 to 126 is the
  three-way cascade: the primary URL when not empty and valid, otherwise the fallback URL
  when not empty and valid, otherwise the default URL. The redirecting copy sends it as
  \<^verbatim>\<open>Location\<close> when the update does not raise and the record's id is a legal header
  value; when the update raises or the headers raise, the \<^verbatim>\<open>catch\<close> answers with the
  default redirect. Whenever the platform's constructor accepts the default URL as an
  \<^verbatim>\<open>http\<close> or \<^verbatim>\<open>https\<close> URL, the selected destination is valid and so is the
  \<^verbatim>\<open>Location\<close> of the response, on every input.
\<close>

theorem destination_cascade:
  "(matched param db = Some l \<longrightarrow>
      determineRedirectUrl newURL l = cascade newURL l
      \<and> (update_mode db \<noteq> UpdateThrows \<and> legalHeaderValue (link_id l) \<longrightarrow>
           fst (GET newURL largeText param db)
             = NextResponse_redirect (cascade newURL l) 301 (tracking_headers largeText l)
           \<and> header ''Location'' (fst (GET newURL largeText param db))
               = Some (cascade newURL l))
      \<and> (update_mode db = UpdateThrows \<or> \<not> legalHeaderValue (link_id l) \<longrightarrow>
           fst (GET newURL largeText param db) = default_redirect ''public, max-age=60''))
   \<and> (isValidUrl newURL default_url \<longrightarrow>
        isValidUrl newURL (cascade newURL l)
        \<and> (\<exists>u. header ''Location'' (fst (GET newURL largeText param db)) = Some u
                \<and> isValidUrl newURL u))"
proof -
  have sel: "determineRedirectUrl newURL l = cascade newURL l"
    by (rule determineRedirectUrl_cascade)
  have tracked: "fst (GET newURL largeText param db)
             = NextResponse_redirect (cascade newURL l) 301 (tracking_headers largeText l)
           \<and> header ''Location'' (fst (GET newURL largeText param db))
               = Some (cascade newURL l)"
    if "matched param db = Some l" and "update_mode db \<noteq> UpdateThrows"
      and "legalHeaderValue (link_id l)"
    using that by (simp add: GET_matched determineRedirectUrl_cascade header_redirect)
  have raised: "fst (GET newURL largeText param db) = default_redirect ''public, max-age=60''"
    if "matched param db = Some l"
      and "update_mode db = UpdateThrows \<or> \<not> legalHeaderValue (link_id l)"
    using that by (rule GET_matched_raise)
  have loc: "\<exists>u. header ''Location'' (fst (GET newURL largeText param db)) = Some u
                \<and> isValidUrl newURL u"
    if d: "isValidUrl newURL default_url"
  proof (cases "matched param db")
    case None
    then have "fst (GET newURL largeText param db) = default_redirect ''public, max-age=300''
       \<or> fst (GET newURL largeText param db) = default_redirect ''public, max-age=60''"
      unfolding GET_def by (rule GET_with_unmatched)
    with d show ?thesis
      by (auto simp: default_redirect_shape default_url_def)
  next
    case (Some k)
    show ?thesis
    proof (cases "update_mode db = UpdateThrows \<or> \<not> legalHeaderValue (link_id k)")
      case True
      with Some have "fst (GET newURL largeText param db)
          = default_redirect ''public, max-age=60''"
        by (rule GET_matched_raise)
      with d show ?thesis
        by (simp add: default_redirect_shape default_url_def)
    next
      case False
      with Some have "header ''Location'' (fst (GET newURL largeText param db))
          = Some (cascade newURL k)"
        by (simp add: GET_matched determineRedirectUrl_cascade header_redirect)
      with d show ?thesis
        by (simp add: cascade_valid)
    qed
  qed
  from sel tracked raised loc cascade_valid [of newURL l] show ?thesis
    by blast
qed

theorem destination_cascade_witness:
  "matched (Slug ''Tool '') (sample_store SelectOk UpdateOk) = Some tool
   \<and> legalHeaderValue (link_id tool)
   \<and> isValidUrl sampleURL default_url
   \<and> cascade sampleURL tool = ''https://partner.example/x''
   \<and> cascade sampleURL (tool\<lparr>redirect_url := ''ftp://partner.example/x''\<rparr>)
       = ''https://cogiflow.ai''
   \<and> cascade sampleURL (tool\<lparr>redirect_url := [], fallback_url := Some ''partner''\<rparr>)
       = default_url
   \<and> header ''Location''
        (fst (GET sampleURL sampleLargeText (Slug ''Tool '') (sample_store SelectOk UpdateOk)))
       = Some ''https://partner.example/x''
   \<and> matched (Slug ''tool'') (store_with line_feed_id SelectOk UpdateOk) = Some line_feed_id
   \<and> fst (GET sampleURL sampleLargeText (Slug ''tool'')
             (store_with line_feed_id SelectOk UpdateOk))
       = default_redirect ''public, max-age=60''"
proof -
  have m: "matched (Slug ''Tool '') (sample_store SelectOk UpdateOk) = Some tool"
    by (simp add: matched_def sample_store_def tool_def eval_strings)
  have u: "update_mode (sample_store SelectOk UpdateOk) \<noteq> UpdateThrows"
    by (simp add: sample_store_def)
  have g: "legalHeaderValue (link_id tool)"
    by (simp add: tool_def eval_headers)
  have d: "isValidUrl sampleURL default_url"
    by (simp add: isValidUrl_def sampleURL_def hostOf_def default_url_def)
  have c: "cascade sampleURL tool = ''https://partner.example/x''"
    by (simp add: cascade_def tool_def isValidUrl_def sampleURL_def hostOf_def)
  have c2: "cascade sampleURL (tool\<lparr>redirect_url := ''ftp://partner.example/x''\<rparr>)
       = ''https://cogiflow.ai''"
    by (simp add: cascade_def tool_def isValidUrl_def sampleURL_def hostOf_def)
  have c3: "cascade sampleURL (tool\<lparr>redirect_url := [], fallback_url := Some ''partner''\<rparr>)
       = default_url"
    by (simp add: cascade_def tool_def isValidUrl_def sampleURL_def hostOf_def)
  have m': "matched (Slug ''tool'') (store_with line_feed_id SelectOk UpdateOk)
       = Some line_feed_id"
    by (simp add: matched_def store_with_def line_feed_id_def tool_def eval_strings)
  have g': "\<not> legalHeaderValue (link_id line_feed_id)"
    by (simp add: line_feed_id_def tool_def eval_headers)
  show ?thesis
    using m u g d c c2 c3 m' g'
      destination_cascade [where newURL = sampleURL and largeText = sampleLargeText
        and param = "Slug ''Tool ''" and db = "sample_store SelectOk UpdateOk" and l = tool]
      destination_cascade [where newURL = sampleURL and largeText = sampleLargeText
        and param = "Slug ''tool''" and db = "store_with line_feed_id SelectOk UpdateOk"
        and l = line_feed_id]
    by auto
qed

text \<open>
  Claim C3, amended. For a request that matches one active record whose clicks value
  \<open>c\<close> satisfies \<^verbatim>\<open>-2^53 <= c < 2^53\<close>, the handler sends one query and one update, the
  update carrying \<open>c + 1\<close>; when the update is applied, the rows with the record's id
  hold that value, otherwise the table is unchanged; both copies of the handler leave
  the same store. In the scenario of the specification (clicks 5, raw slug
  \<^verbatim>\<open>"Tool "\<close>) the slug sanitizes to \<^verbatim>\<open>tool\<close>, the response is the 301 redirect to
  \<^verbatim>\<open>https://partner.example/x\<close> with the clicks header 6, and the stored clicks are 6,
  for every id that is a legal header value and every timestamp.
\<close>

theorem clicks_incremented_by_one:
  "(matched param db = Some l
      \<and> - 9007199254740992 \<le> clicks l \<and> clicks l < 9007199254740992 \<longrightarrow>
      requests (snd (GET newURL largeText param db))
        = requests db @ [SelectSingle (slug l), UpdateClicks (link_id l) (clicks l + 1)]
      \<and> (update_mode db = UpdateOk \<longrightarrow>
           affiliate_links (snd (GET newURL largeText param db))
             = map (\<lambda>r. if link_id r = link_id l then r\<lparr>clicks := clicks l + 1\<rparr> else r)
                 (affiliate_links db))
      \<and> (update_mode db \<noteq> UpdateOk \<longrightarrow>
           affiliate_links (snd (GET newURL largeText param db)) = affiliate_links db)
      \<and> snd (GET_html newURL largeText param db) = snd (GET newURL largeText param db))
   \<and> (isValidUrl newURL ''https://partner.example/x'' \<and> legalHeaderValue i \<longrightarrow>
        sanitize ''Tool '' = ''tool''
        \<and> GET newURL largeText (Slug ''Tool '')
            \<lparr>affiliate_links =
               [\<lparr>link_id = i, slug = ''tool'', redirect_url = ''https://partner.example/x'',
                 fallback_url = Some ''https://cogiflow.ai'', clicks = 5,
                 created_at = t, active = True\<rparr>],
             select_mode = SelectOk, update_mode = UpdateOk, requests = []\<rparr>
          = (\<lparr>status = 301,
              headers = [(''Cache-Control'', ''no-cache, no-store, must-revalidate''),
                         (''X-Cogiflow-Affiliate'', i),
                         (''X-Cogiflow-Clicks'', ''6''),
                         (''Location'', ''https://partner.example/x'')],
              body = NoBody\<rparr>,
             \<lparr>affiliate_links =
               [\<lparr>link_id = i, slug = ''tool'', redirect_url = ''https://partner.example/x'',
                 fallback_url = Some ''https://cogiflow.ai'', clicks = 6,
                 created_at = t, active = True\<rparr>],
              select_mode = SelectOk, update_mode = UpdateOk,
              requests = [SelectSingle ''tool'', UpdateClicks i 6]\<rparr>))"
proof -
  have general: "requests (snd (GET newURL largeText param db))
        = requests db @ [SelectSingle (slug l), UpdateClicks (link_id l) (clicks l + 1)]
      \<and> (update_mode db = UpdateOk \<longrightarrow>
           affiliate_links (snd (GET newURL largeText param db))
             = map (\<lambda>r. if link_id r = link_id l then r\<lparr>clicks := clicks l + 1\<rparr> else r)
                 (affiliate_links db))
      \<and> (update_mode db \<noteq> UpdateOk \<longrightarrow>
           affiliate_links (snd (GET newURL largeText param db)) = affiliate_links db)
      \<and> snd (GET_html newURL largeText param db) = snd (GET newURL largeText param db)"
    if "matched param db = Some l"
      and "- 9007199254740992 \<le> clicks l" and "clicks l < 9007199254740992"
    using that
    by (simp add: GET_store_matched update_clicks_store nextClicks_plus_one)
  have scenario: "GET newURL largeText (Slug ''Tool '')
            \<lparr>affiliate_links =
               [\<lparr>link_id = i, slug = ''tool'', redirect_url = ''https://partner.example/x'',
                 fallback_url = Some ''https://cogiflow.ai'', clicks = 5,
                 created_at = t, active = True\<rparr>],
             select_mode = SelectOk, update_mode = UpdateOk, requests = []\<rparr>
          = (\<lparr>status = 301,
              headers = [(''Cache-Control'', ''no-cache, no-store, must-revalidate''),
                         (''X-Cogiflow-Affiliate'', i),
                         (''X-Cogiflow-Clicks'', ''6''),
                         (''Location'', ''https://partner.example/x'')],
              body = NoBody\<rparr>,
             \<lparr>affiliate_links =
               [\<lparr>link_id = i, slug = ''tool'', redirect_url = ''https://partner.example/x'',
                 fallback_url = Some ''https://cogiflow.ai'', clicks = 6,
                 created_at = t, active = True\<rparr>],
              select_mode = SelectOk, update_mode = UpdateOk,
              requests = [SelectSingle ''tool'', UpdateClicks i 6]\<rparr>)"
    if "isValidUrl newURL ''https://partner.example/x''" and "legalHeaderValue i"
    using that
    by (simp add: GET_def GET_with_def GET_try_def select_single_def update_clicks_def
        nextClicks_def addOne_def emit_redirect_def determineRedirectUrl_def
        tracking_headers_def NextResponse_redirect_def String_of_def digits.simps
        eval_strings)
  have "sanitize ''Tool '' = ''tool''"
    by (simp add: eval_strings)
  with general scenario show ?thesis
    by blast
qed

theorem clicks_incremented_by_one_witness:
  "matched (Slug ''Tool '') (sample_store SelectOk UpdateOk) = Some tool
   \<and> isValidUrl sampleURL ''https://partner.example/x''
   \<and> legalHeaderValue ''7''
   \<and> clicks tool = 5
   \<and> map clicks (affiliate_links (snd (GET sampleURL sampleLargeText (Slug ''Tool '')
          (sample_store SelectOk UpdateOk)))) = [6]
   \<and> requests (snd (GET sampleURL sampleLargeText (Slug ''Tool '')
          (sample_store SelectOk UpdateOk)))
       = [SelectSingle ''tool'', UpdateClicks ''7'' 6]
   \<and> map clicks (affiliate_links (snd (GET sampleURL sampleLargeText (Slug ''Tool '')
          (sample_store SelectOk (UpdateFails ''23505''))))) = [5]
   \<and> header ''Location'' (fst (GET sampleURL sampleLargeText (Slug ''Tool '')
          \<lparr>affiliate_links = [tool], select_mode = SelectOk, update_mode = UpdateOk,
            requests = []\<rparr>)) = Some ''https://partner.example/x''"
proof -
  have m: "matched (Slug ''Tool '') (sample_store SelectOk UpdateOk) = Some tool"
    by (simp add: matched_def sample_store_def tool_def eval_strings)
  have m': "matched (Slug ''Tool '') (sample_store SelectOk (UpdateFails ''23505'')) = Some tool"
    by (simp add: matched_def sample_store_def tool_def eval_strings)
  have v: "isValidUrl sampleURL ''https://partner.example/x''"
    by (simp add: isValidUrl_def sampleURL_def hostOf_def)
  have g: "legalHeaderValue ''7''"
    by (simp add: eval_headers)
  have "update_mode (sample_store SelectOk um) = um"
    and "affiliate_links (sample_store SelectOk um) = [tool]"
    and "requests (sample_store SelectOk um) = []" for um
    by (simp_all add: sample_store_def)
  then show ?thesis
    using m m' v g
      clicks_incremented_by_one [where newURL = sampleURL and largeText = sampleLargeText
        and param = "Slug ''Tool ''" and db = "sample_store SelectOk UpdateOk" and l = tool
        and i = "''7''" and t = "''2024-01-01''"]
      clicks_incremented_by_one [where newURL = sampleURL and largeText = sampleLargeText
        and param = "Slug ''Tool ''" and db = "sample_store SelectOk (UpdateFails ''23505'')"
        and l = tool and i = "''7''" and t = "''2024-01-01''"]
    by (auto simp: tool_def header_def)
qed

text \<open>
  With the counter at \<^verbatim>\<open>2^53\<close> the sum of doubles is the value read: the update carries
  9007199254740992 and the stored value stays what it was.
\<close>

theorem clicks_incremented_by_one_counterexample:
  "matched (Slug ''tool'') (store_with saturated SelectOk UpdateOk) = Some saturated
   \<and> clicks saturated = 9007199254740992
   \<and> requests (snd (GET sampleURL sampleLargeText (Slug ''tool'')
          (store_with saturated SelectOk UpdateOk)))
       = [SelectSingle ''tool'', UpdateClicks ''7'' 9007199254740992]
   \<and> map clicks (affiliate_links (snd (GET sampleURL sampleLargeText (Slug ''tool'')
          (store_with saturated SelectOk UpdateOk)))) = [9007199254740992]
   \<and> map clicks (affiliate_links (snd (GET sampleURL sampleLargeText (Slug ''tool'')
          (store_with saturated SelectOk UpdateOk)))) \<noteq> [clicks saturated + 1]"
  by (simp add: matched_def store_with_def saturated_def tool_def GET_def GET_with_def
      GET_try_def select_single_def update_clicks_def nextClicks_def addOne_def
      emit_redirect_def eval_headers eval_strings)

text \<open>
  Claim C5, amended. For a matched record, the run in which the update answers with an
  error object and the run in which it is applied return the same response, in both
  copies of the handler; when the record's id is a legal header value the redirecting
  copy redirects, in both runs, to the destination selected from the record, and when
  it is not, both runs end in the default redirect. An update that raises is caught:
  both copies then answer with the default redirect cached for 60 seconds.
\<close>

theorem update_failure_keeps_destination:
  assumes "matched param db = Some l"
  shows "fst (GET newURL largeText param (db\<lparr>update_mode := UpdateFails c\<rparr>))
           = fst (GET newURL largeText param (db\<lparr>update_mode := UpdateOk\<rparr>))
       \<and> fst (GET_html newURL largeText param (db\<lparr>update_mode := UpdateFails c\<rparr>))
           = fst (GET_html newURL largeText param (db\<lparr>update_mode := UpdateOk\<rparr>))
       \<and> (legalHeaderValue (link_id l) \<longrightarrow>
            fst (GET newURL largeText param (db\<lparr>update_mode := UpdateFails c\<rparr>))
              = NextResponse_redirect (determineRedirectUrl newURL l) 301
                  (tracking_headers largeText l)
            \<and> header ''Location''
                 (fst (GET newURL largeText param (db\<lparr>update_mode := UpdateFails c\<rparr>)))
                = Some (determineRedirectUrl newURL l))
       \<and> (\<not> legalHeaderValue (link_id l) \<longrightarrow>
            fst (GET newURL largeText param (db\<lparr>update_mode := UpdateFails c\<rparr>))
              = default_redirect ''public, max-age=60'')
       \<and> fst (GET newURL largeText param (db\<lparr>update_mode := UpdateThrows\<rparr>))
           = default_redirect ''public, max-age=60''
       \<and> fst (GET_html newURL largeText param (db\<lparr>update_mode := UpdateThrows\<rparr>))
           = default_redirect ''public, max-age=60''"
proof -
  from assms have m: "matched param (db\<lparr>update_mode := um\<rparr>) = Some l" for um
    by (simp add: matched_update_mode)
  have same: "fst (GET_with emit newURL largeText param (db\<lparr>update_mode := UpdateFails c\<rparr>))
           = fst (GET_with emit newURL largeText param (db\<lparr>update_mode := UpdateOk\<rparr>))"
    for emit
    by (simp add: GET_with_matched [OF m])
  have legal: "fst (GET newURL largeText param (db\<lparr>update_mode := UpdateFails c\<rparr>))
              = NextResponse_redirect (determineRedirectUrl newURL l) 301
                  (tracking_headers largeText l)"
    if "legalHeaderValue (link_id l)"
    using that by (simp add: GET_matched [OF m])
  have illegal: "fst (GET newURL largeText param (db\<lparr>update_mode := UpdateFails c\<rparr>))
              = default_redirect ''public, max-age=60''"
    if "\<not> legalHeaderValue (link_id l)"
    using that by (simp add: GET_matched_raise [OF m])
  have throws: "fst (GET newURL largeText param (db\<lparr>update_mode := UpdateThrows\<rparr>))
           = default_redirect ''public, max-age=60''
       \<and> fst (GET_html newURL largeText param (db\<lparr>update_mode := UpdateThrows\<rparr>))
           = default_redirect ''public, max-age=60''"
    by (simp add: GET_matched_raise [OF m])
  from same legal illegal throws show ?thesis
    by (simp add: GET_def GET_html_def header_redirect)
qed

theorem update_failure_keeps_destination_witness:
  "matched (Slug ''Tool '') (sample_store SelectOk UpdateOk) = Some tool
   \<and> legalHeaderValue (link_id tool)
   \<and> fst (GET sampleURL sampleLargeText (Slug ''Tool '')
            (sample_store SelectOk (UpdateFails ''23505'')))
       = fst (GET sampleURL sampleLargeText (Slug ''Tool '') (sample_store SelectOk UpdateOk))
   \<and> header ''Location''
         (fst (GET sampleURL sampleLargeText (Slug ''Tool '')
                 (sample_store SelectOk (UpdateFails ''23505''))))
       = Some ''https://partner.example/x''
   \<and> matched (Slug ''tool'') (store_with line_feed_id SelectOk UpdateOk) = Some line_feed_id
   \<and> fst (GET sampleURL sampleLargeText (Slug ''tool'')
             (store_with line_feed_id SelectOk (UpdateFails ''23505'')))
       = default_redirect ''public, max-age=60''"
proof -
  have m: "matched (Slug ''Tool '') (sample_store SelectOk UpdateOk) = Some tool"
    by (simp add: matched_def sample_store_def tool_def eval_strings)
  have g: "legalHeaderValue (link_id tool)"
    by (simp add: tool_def eval_headers)
  have s: "(sample_store SelectOk UpdateOk)\<lparr>update_mode := um\<rparr> = sample_store SelectOk um"
    for um
    by (simp add: sample_store_def)
  have d: "determineRedirectUrl sampleURL tool = ''https://partner.example/x''"
    by (simp add: determineRedirectUrl_def tool_def isValidUrl_def sampleURL_def hostOf_def)
  have m': "matched (Slug ''tool'') (store_with line_feed_id SelectOk UpdateOk)
       = Some line_feed_id"
    by (simp add: matched_def store_with_def line_feed_id_def tool_def eval_strings)
  have g': "\<not> legalHeaderValue (link_id line_feed_id)"
    by (simp add: line_feed_id_def tool_def eval_headers)
  have s': "(store_with line_feed_id SelectOk UpdateOk)\<lparr>update_mode := um\<rparr>
      = store_with line_feed_id SelectOk um" for um
    by (simp add: store_with_def)
  show ?thesis
    using m g m' g'
      update_failure_keeps_destination [OF m, where newURL = sampleURL
        and largeText = sampleLargeText and c = "''23505''"]
      update_failure_keeps_destination [OF m', where newURL = sampleURL
        and largeText = sampleLargeText and c = "''23505''"]
    by (auto simp: s s' d)
qed

text \<open>
  An update that raises changes the destination: the same record and request end at the
  default URL instead of the record's URL.
\<close>

theorem update_failure_keeps_destination_counterexample:
  "matched (Slug ''tool'') (sample_store SelectOk UpdateOk) = Some tool
   \<and> header ''Location''
        (fst (GET sampleURL sampleLargeText (Slug ''tool'') (sample_store SelectOk UpdateOk)))
       = Some ''https://partner.example/x''
   \<and> header ''Location''
        (fst (GET sampleURL sampleLargeText (Slug ''tool'')
                (sample_store SelectOk UpdateThrows)))
       = Some ''https://cogiflow.ai''
   \<and> fst (GET sampleURL sampleLargeText (Slug ''tool'') (sample_store SelectOk UpdateThrows))
       \<noteq> fst (GET sampleURL sampleLargeText (Slug ''tool'') (sample_store SelectOk UpdateOk))"
  by (simp add: matched_def sample_store_def tool_def GET_def GET_with_def GET_try_def
      select_single_def update_clicks_def nextClicks_def addOne_def emit_redirect_def
      determineRedirectUrl_def isValidUrl_def sampleURL_def hostOf_def
      tracking_headers_def NextResponse_redirect_def default_redirect_def default_url_def
      header_def eval_headers eval_strings)

text \<open>
  Claim C9, amended. Every response that carries the header \<^verbatim>\<open>X-Cogiflow-Clicks\<close> carries
  there the text of \<^verbatim>\<open>(clicks || 0) + 1\<close>, computed from the clicks value \<open>c\<close> read by
  the query, whether the update was applied or answered with an error. For
  \<^verbatim>\<open>-2^53 <= c < 2^53\<close> that is the decimal text of \<open>c + 1\<close>, and the tracked response
  is sent whenever the update does not raise and the record's id is a legal header
  value. When the update answered with an error the table is unchanged, so the matched
  row still holds the value that was read.
\<close>

theorem clicks_header_ignores_update_outcome:
  assumes "matched param db = Some l"
  shows "(header ''X-Cogiflow-Clicks'' (fst (GET newURL largeText param db)) = Some v \<longrightarrow>
            v = String_of largeText (nextClicks l))
       \<and> (header ''X-Cogiflow-Clicks'' (fst (GET_html newURL largeText param db)) = Some w \<longrightarrow>
            w = String_of largeText (nextClicks l))
       \<and> (- 9007199254740992 \<le> clicks l \<and> clicks l < 9007199254740992 \<longrightarrow>
            nextClicks l = clicks l + 1
            \<and> String_of largeText (nextClicks l)
                = (if clicks l + 1 < 0 then CHR ''-'' # digits (nat (- (clicks l + 1)))
                   else digits (nat (clicks l + 1)))
            \<and> (update_mode db \<noteq> UpdateThrows \<and> legalHeaderValue (link_id l) \<longrightarrow>
                 header ''X-Cogiflow-Clicks'' (fst (GET newURL largeText param db))
                   = Some (String_of largeText (clicks l + 1))
                 \<and> (newURL (determineRedirectUrl newURL l) \<noteq> None \<longrightarrow>
                      header ''X-Cogiflow-Clicks'' (fst (GET_html newURL largeText param db))
                        = Some (String_of largeText (clicks l + 1)))))
       \<and> (update_mode db = UpdateFails c \<longrightarrow>
            affiliate_links (snd (GET newURL largeText param db)) = affiliate_links db
            \<and> affiliate_links (snd (GET_html newURL largeText param db)) = affiliate_links db
            \<and> l \<in> set (affiliate_links db))"
proof -
  have any: "v = String_of largeText (nextClicks l)"
    if "header ''X-Cogiflow-Clicks'' (fst (GET newURL largeText param db)) = Some v"
  proof (cases "update_mode db = UpdateThrows \<or> \<not> legalHeaderValue (link_id l)")
    case True
    with assms have "fst (GET newURL largeText param db)
        = default_redirect ''public, max-age=60''"
      by (rule GET_matched_raise)
    with that show ?thesis
      by (simp add: header_default)
  next
    case False
    with assms that show ?thesis
      by (simp add: GET_matched header_redirect)
  qed
  have any_html: "w = String_of largeText (nextClicks l)"
    if h: "header ''X-Cogiflow-Clicks'' (fst (GET_html newURL largeText param db)) = Some w"
  proof (cases "update_mode db = UpdateThrows \<or> \<not> legalHeaderValue (link_id l)")
    case True
    with assms have "fst (GET_html newURL largeText param db)
        = default_redirect ''public, max-age=60''"
      by (rule GET_matched_raise)
    with h show ?thesis
      by (simp add: header_default)
  next
    case False
    show ?thesis
    proof (cases "newURL (determineRedirectUrl newURL l)")
      case None
      with assms have "fst (GET_html newURL largeText param db)
          = default_redirect ''public, max-age=60''"
        by (rule GET_html_no_url)
      with h show ?thesis
        by (simp add: header_default)
    next
      case (Some u)
      with assms False h show ?thesis
        by (simp add: GET_html_matched header_html)
    qed
  qed
  have safe: "nextClicks l = clicks l + 1
            \<and> String_of largeText (nextClicks l)
                = (if clicks l + 1 < 0 then CHR ''-'' # digits (nat (- (clicks l + 1)))
                   else digits (nat (clicks l + 1)))"
    if "- 9007199254740992 \<le> clicks l" and "clicks l < 9007199254740992"
    using that by (simp add: nextClicks_plus_one String_of_def)
  have tracked: "header ''X-Cogiflow-Clicks'' (fst (GET newURL largeText param db))
                   = Some (String_of largeText (clicks l + 1))
                 \<and> (newURL (determineRedirectUrl newURL l) \<noteq> None \<longrightarrow>
                      header ''X-Cogiflow-Clicks'' (fst (GET_html newURL largeText param db))
                        = Some (String_of largeText (clicks l + 1)))"
    if r: "- 9007199254740992 \<le> clicks l" "clicks l < 9007199254740992"
      and u: "update_mode db \<noteq> UpdateThrows" and g: "legalHeaderValue (link_id l)"
  proof -
    have "header ''X-Cogiflow-Clicks'' (fst (GET newURL largeText param db))
                   = Some (String_of largeText (clicks l + 1))"
      using assms u g r by (simp add: GET_matched header_redirect nextClicks_plus_one)
    moreover have "header ''X-Cogiflow-Clicks'' (fst (GET_html newURL largeText param db))
                        = Some (String_of largeText (clicks l + 1))"
      if "newURL (determineRedirectUrl newURL l) \<noteq> None"
    proof -
      from that obtain x where "newURL (determineRedirectUrl newURL l) = Some x"
        by blast
      with assms u g r show ?thesis
        by (simp add: GET_html_matched header_html nextClicks_plus_one)
    qed
    ultimately show ?thesis by blast
  qed
  have unchanged: "affiliate_links (snd (GET newURL largeText param db)) = affiliate_links db
            \<and> affiliate_links (snd (GET_html newURL largeText param db)) = affiliate_links db"
    if "update_mode db = UpdateFails c"
    using assms that by (simp add: GET_store_matched update_clicks_store)
  from any any_html safe tracked unchanged matched_member [OF assms] show ?thesis
    by blast
qed

theorem clicks_header_ignores_update_outcome_witness:
  "matched (Slug ''tool'') (sample_store SelectOk (UpdateFails ''23505'')) = Some tool
   \<and> legalHeaderValue (link_id tool)
   \<and> clicks tool = 5
   \<and> header ''X-Cogiflow-Clicks''
        (fst (GET sampleURL sampleLargeText (Slug ''tool'')
                (sample_store SelectOk (UpdateFails ''23505''))))
       = Some ''6''
   \<and> header ''X-Cogiflow-Clicks''
        (fst (GET_html sampleURL sampleLargeText (Slug ''tool'')
                (sample_store SelectOk (UpdateFails ''23505''))))
       = Some ''6''
   \<and> map clicks (affiliate_links
        (snd (GET sampleURL sampleLargeText (Slug ''tool'')
                (sample_store SelectOk (UpdateFails ''23505'')))))
       = [5]"
proof -
  have m: "matched (Slug ''tool'') (sample_store SelectOk (UpdateFails ''23505'')) = Some tool"
    by (simp add: matched_def sample_store_def tool_def eval_strings)
  have u: "update_mode (sample_store SelectOk (UpdateFails ''23505'')) \<noteq> UpdateThrows"
    by (simp add: sample_store_def)
  have g: "legalHeaderValue (link_id tool)"
    by (simp add: tool_def eval_headers)
  have d: "sampleURL (determineRedirectUrl sampleURL tool) \<noteq> None"
    by (simp add: determineRedirectUrl_def tool_def isValidUrl_def sampleURL_def hostOf_def)
  have n: "String_of sampleLargeText (clicks tool + 1) = ''6''"
    by (simp add: String_of_def digits.simps tool_def char_of_def bit_Suc_0_iff)
  have "update_mode (sample_store SelectOk (UpdateFails ''23505'')) = UpdateFails ''23505''"
    and "affiliate_links (sample_store SelectOk (UpdateFails ''23505'')) = [tool]"
    and "clicks tool = 5"
    by (simp_all add: sample_store_def tool_def)
  then show ?thesis
    using m u g d n
      clicks_header_ignores_update_outcome [OF m, where newURL = sampleURL
        and largeText = sampleLargeText and c = "''23505''" and v = "''6''" and w = "''6''"]
    by auto
qed

text \<open>
  With the counter at \<^verbatim>\<open>2^53\<close> the header is the text of the value read, not of the
  value plus one.
\<close>

theorem clicks_header_ignores_update_outcome_counterexample:
  "matched (Slug ''tool'') (store_with saturated SelectOk UpdateOk) = Some saturated
   \<and> clicks saturated = 9007199254740992
   \<and> header ''X-Cogiflow-Clicks''
        (fst (GET sampleURL sampleLargeText (Slug ''tool'')
                (store_with saturated SelectOk UpdateOk)))
       = Some ''9007199254740992''
   \<and> int (decimal ''9007199254740992'') = clicks saturated
   \<and> int (decimal ''9007199254740992'') \<noteq> clicks saturated + 1"
  by (simp add: matched_def store_with_def saturated_def tool_def GET_def GET_with_def
      GET_try_def select_single_def update_clicks_def nextClicks_def addOne_def
      emit_redirect_def tracking_headers_def NextResponse_redirect_def String_of_def
      digits.simps decimal_def header_def eval_headers eval_strings)

subsection \<open>Failures and caching\<close>

lemma GET_with_catch:
  assumes "GET_try emit newURL largeText param db = (Inl e, db')"
  shows "GET_with emit newURL largeText param db = (default_redirect ''public, max-age=60'', db')"
  using assms by (simp add: GET_with_def)

lemma GET_with_update_throws:
  assumes "update_mode db = UpdateThrows"
  shows "fst (GET_with emit newURL largeText param db) = default_redirect ''public, max-age=300''
       \<or> fst (GET_with emit newURL largeText param db) = default_redirect ''public, max-age=60''"
proof (cases "matched param db")
  case None
  then show ?thesis by (rule GET_with_unmatched)
next
  case (Some l)
  with assms show ?thesis by (simp add: GET_with_matched)
qed

text \<open>
  Claim C4. The handler returns a response on every input and every behaviour of the
  store. Whenever the request matches no record (invalid slug, no row, a query that
  answers with an error or raises) or the update raises, the response is a default
  redirect, in both copies; whatever the body of the \<^verbatim>\<open>try\<close> raises is turned into
  the default redirect cached for 60 seconds. On every input the response is a default
  redirect or the tracked response of a matched record. Every default redirect has
  status 301, the default URL as \<^verbatim>\<open>Location\<close> and no body.
\<close>

theorem failures_default_redirect:
  "(matched param db = None \<or> update_mode db = UpdateThrows \<longrightarrow>
      (fst (GET newURL largeText param db) = default_redirect ''public, max-age=300''
       \<or> fst (GET newURL largeText param db) = default_redirect ''public, max-age=60'')
      \<and> (fst (GET_html newURL largeText param db) = default_redirect ''public, max-age=300''
         \<or> fst (GET_html newURL largeText param db) = default_redirect ''public, max-age=60''))
   \<and> (GET_try emit newURL largeText param db = (Inl e, db') \<longrightarrow>
        GET_with emit newURL largeText param db = (default_redirect ''public, max-age=60'', db'))
   \<and> (fst (GET newURL largeText param db) = default_redirect ''public, max-age=300''
      \<or> fst (GET newURL largeText param db) = default_redirect ''public, max-age=60''
      \<or> (\<exists>l. matched param db = Some l
             \<and> fst (GET newURL largeText param db)
                 = NextResponse_redirect (determineRedirectUrl newURL l) 301
                     (tracking_headers largeText l)))
   \<and> (fst (GET_html newURL largeText param db) = default_redirect ''public, max-age=300''
      \<or> fst (GET_html newURL largeText param db) = default_redirect ''public, max-age=60''
      \<or> (\<exists>l u. matched param db = Some l
             \<and> newURL (determineRedirectUrl newURL l) = Some u
             \<and> fst (GET_html newURL largeText param db)
                 = \<lparr>status = 200,
                    headers = (''Content-Type'', ''text/html; charset=utf-8'')
                              # tracking_headers largeText l,
                    body = HtmlBody (hostname u) (determineRedirectUrl newURL l)\<rparr>))
   \<and> status (default_redirect cache) = 301
   \<and> header ''Location'' (default_redirect cache) = Some ''https://cogiflow.ai''
   \<and> body (default_redirect cache) = NoBody"
proof -
  have fail: "fst (GET_with em newURL largeText param db) = default_redirect ''public, max-age=300''
       \<or> fst (GET_with em newURL largeText param db) = default_redirect ''public, max-age=60''"
    if "matched param db = None \<or> update_mode db = UpdateThrows" for em
    using that GET_with_unmatched GET_with_update_throws by blast
  have all_get: "fst (GET newURL largeText param db) = default_redirect ''public, max-age=300''
      \<or> fst (GET newURL largeText param db) = default_redirect ''public, max-age=60''
      \<or> (\<exists>l. matched param db = Some l
             \<and> fst (GET newURL largeText param db)
                 = NextResponse_redirect (determineRedirectUrl newURL l) 301
                     (tracking_headers largeText l))"
  proof (cases "matched param db = None \<or> update_mode db = UpdateThrows")
    case True
    then show ?thesis using fail [of emit_redirect] unfolding GET_def by blast
  next
    case False
    then obtain l where l: "matched param db = Some l" "update_mode db \<noteq> UpdateThrows"
      by auto
    show ?thesis
    proof (cases "legalHeaderValue (link_id l)")
      case True
      with l show ?thesis by (simp add: GET_matched)
    next
      case False
      with l show ?thesis by (simp add: GET_matched_raise)
    qed
  qed
  have all_html: "fst (GET_html newURL largeText param db) = default_redirect ''public, max-age=300''
      \<or> fst (GET_html newURL largeText param db) = default_redirect ''public, max-age=60''
      \<or> (\<exists>l u. matched param db = Some l
             \<and> newURL (determineRedirectUrl newURL l) = Some u
             \<and> fst (GET_html newURL largeText param db)
                 = \<lparr>status = 200,
                    headers = (''Content-Type'', ''text/html; charset=utf-8'')
                              # tracking_headers largeText l,
                    body = HtmlBody (hostname u) (determineRedirectUrl newURL l)\<rparr>)"
  proof (cases "matched param db = None \<or> update_mode db = UpdateThrows")
    case True
    then show ?thesis using fail [of emit_html] unfolding GET_html_def by blast
  next
    case False
    then obtain l where l: "matched param db = Some l" "update_mode db \<noteq> UpdateThrows"
      by auto
    show ?thesis
    proof (cases "newURL (determineRedirectUrl newURL l)")
      case None
      with l show ?thesis by (simp add: GET_html_no_url)
    next
      case (Some u)
      show ?thesis
      proof (cases "legalHeaderValue (link_id l)")
        case True
        with l Some show ?thesis by (simp add: GET_html_matched)
      next
        case False
        with l show ?thesis by (simp add: GET_matched_raise)
      qed
    qed
  qed
  from fail all_get all_html show ?thesis
    by (simp add: GET_def GET_html_def GET_with_catch default_redirect_shape)
qed

theorem failures_default_redirect_witness:
  "matched (Slug ''tool'') (sample_store SelectThrows UpdateOk) = None
   \<and> GET_try emit_html sampleURL sampleLargeText (Slug ''tool'') (sample_store SelectOk UpdateThrows)
       = (Inl StoreException,
          (sample_store SelectOk UpdateThrows)
            \<lparr>requests := [SelectSingle ''tool'', UpdateClicks ''7'' 6]\<rparr>)
   \<and> fst (GET sampleURL sampleLargeText (Slug ''tool'') (sample_store SelectThrows UpdateOk))
       = default_redirect ''public, max-age=60''
   \<and> fst (GET_with emit_html sampleURL sampleLargeText (Slug ''tool'') (sample_store SelectOk UpdateThrows))
       = default_redirect ''public, max-age=60''
   \<and> status (default_redirect ''public, max-age=60'') = 301"
proof -
  have m: "matched (Slug ''tool'') (sample_store SelectThrows UpdateOk) = None"
    by (simp add: matched_def sample_store_def)
  have t: "GET_try emit_html sampleURL sampleLargeText (Slug ''tool'') (sample_store SelectOk UpdateThrows)
       = (Inl StoreException,
          (sample_store SelectOk UpdateThrows)
            \<lparr>requests := [SelectSingle ''tool'', UpdateClicks ''7'' 6]\<rparr>)"
    by (simp add: GET_try_def select_single_def update_clicks_def nextClicks_def addOne_def
        sample_store_def tool_def eval_strings)
  have g: "fst (GET sampleURL sampleLargeText (Slug ''tool'') (sample_store SelectThrows UpdateOk))
       \<noteq> default_redirect ''public, max-age=300''"
    by (simp add: GET_def GET_with_def GET_try_def select_single_def sample_store_def
        default_redirect_def NextResponse_redirect_def eval_strings)
  show ?thesis
    using m t g
      failures_default_redirect [where param = "Slug ''tool''"
        and db = "sample_store SelectThrows UpdateOk" and newURL = sampleURL
        and largeText = sampleLargeText and emit = emit_html and e = StoreException
        and db' = "(sample_store SelectThrows UpdateOk)\<lparr>requests := [SelectSingle ''tool'']\<rparr>"
        and cache = "''public, max-age=60''"]
      failures_default_redirect [where param = "Slug ''tool''"
        and db = "sample_store SelectOk UpdateThrows" and newURL = sampleURL
        and largeText = sampleLargeText and emit = emit_html and e = StoreException
        and db' = "(sample_store SelectOk UpdateThrows)
            \<lparr>requests := [SelectSingle ''tool'', UpdateClicks ''7'' 6]\<rparr>"
        and cache = "''public, max-age=60''"]
    by auto
qed

lemma cache_lifetime_default:
  "cache_lifetime (default_redirect ''public, max-age=300'') = Some 300
   \<and> cache_lifetime (default_redirect ''public, max-age=60'') = Some 60"
  by (simp add: cache_lifetime_def default_redirect_shape max_age_def directives_def
      List.map_filter_def isDigit_def decimal_def trim_def isWhiteSpace_def)

lemma tracking_cache_control:
  "max_age ''no-cache, no-store, must-revalidate'' = None
   \<and> ''no-store'' \<in> set (directives ''no-cache, no-store, must-revalidate'')"
  by (simp add: max_age_def directives_def List.map_filter_def trim_def isWhiteSpace_def)

text \<open>
  Claim C7. For a slug that passes validation: a query that answers with an error other
  than \<^verbatim>\<open>PGRST116\<close> gives the default redirect with lifetime 60, no matching row gives
  the default redirect with lifetime 300, and 60 is below 300. The tracked response,
  sent for a matched record when the update does not raise and the record's id is a
  legal header value, carries \<^verbatim>\<open>no-store\<close> and no lifetime; every response of the
  redirecting copy that carries the clicks header does. A matched record whose id makes
  the headers raise gets the default redirect with lifetime 60.
\<close>

theorem cache_policy_by_outcome:
  assumes "trim s \<noteq> []" and "list_all slugChar (toLowerCase (trim s))"
  shows "(select_mode db = SelectFails c \<and> c \<noteq> ''PGRST116'' \<longrightarrow>
            fst (GET newURL largeText (Slug s) db) = default_redirect ''public, max-age=60''
            \<and> fst (GET_html newURL largeText (Slug s) db)
                = default_redirect ''public, max-age=60''
            \<and> cache_lifetime (fst (GET_html newURL largeText (Slug s) db)) = Some 60)
       \<and> (select_mode db = SelectOk
            \<and> filter (\<lambda>r. slug r = toLowerCase (trim s) \<and> active r) (affiliate_links db) = []
          \<longrightarrow>
            fst (GET newURL largeText (Slug s) db) = default_redirect ''public, max-age=300''
            \<and> fst (GET_html newURL largeText (Slug s) db)
                = default_redirect ''public, max-age=300''
            \<and> cache_lifetime (fst (GET_html newURL largeText (Slug s) db)) = Some 300)
       \<and> (60 :: nat) < 300
       \<and> (matched (Slug s) db = Some l \<and> update_mode db \<noteq> UpdateThrows
            \<and> legalHeaderValue (link_id l) \<longrightarrow>
            caching_disabled (fst (GET newURL largeText (Slug s) db))
            \<and> cache_lifetime (fst (GET newURL largeText (Slug s) db)) = None
            \<and> (newURL (determineRedirectUrl newURL l) \<noteq> None \<longrightarrow>
                 caching_disabled (fst (GET_html newURL largeText (Slug s) db))
                 \<and> cache_lifetime (fst (GET_html newURL largeText (Slug s) db)) = None))
       \<and> (matched (Slug s) db = Some l \<and> \<not> legalHeaderValue (link_id l) \<longrightarrow>
            fst (GET newURL largeText (Slug s) db) = default_redirect ''public, max-age=60''
            \<and> fst (GET_html newURL largeText (Slug s) db)
                = default_redirect ''public, max-age=60''
            \<and> cache_lifetime (fst (GET newURL largeText (Slug s) db)) = Some 60)
       \<and> (header ''X-Cogiflow-Clicks'' (fst (GET newURL largeText (Slug s) db)) = Some v \<longrightarrow>
            caching_disabled (fst (GET newURL largeText (Slug s) db))
            \<and> cache_lifetime (fst (GET newURL largeText (Slug s) db)) = None)"
proof -
  have err: "fst (GET_with emit newURL largeText (Slug s) db)
      = default_redirect ''public, max-age=60''"
    if "select_mode db = SelectFails c" and "c \<noteq> ''PGRST116''" for emit
    using assms that by (simp add: GET_with_def GET_try_valid select_single_def)
  have nf: "fst (GET_with emit newURL largeText (Slug s) db)
      = default_redirect ''public, max-age=300''"
    if "select_mode db = SelectOk"
      and "filter (\<lambda>r. slug r = toLowerCase (trim s) \<and> active r) (affiliate_links db) = []"
    for emit
    using assms that by (simp add: GET_with_def GET_try_valid select_single_def)
  have ok: "caching_disabled (fst (GET newURL largeText (Slug s) db))
            \<and> cache_lifetime (fst (GET newURL largeText (Slug s) db)) = None"
    if "matched (Slug s) db = Some k" and "update_mode db \<noteq> UpdateThrows"
      and "legalHeaderValue (link_id k)" for k
    using that
    by (simp add: GET_matched caching_disabled_def cache_lifetime_def header_redirect
        tracking_cache_control)
  have okh: "caching_disabled (fst (GET_html newURL largeText (Slug s) db))
            \<and> cache_lifetime (fst (GET_html newURL largeText (Slug s) db)) = None"
    if "matched (Slug s) db = Some l" and "update_mode db \<noteq> UpdateThrows"
      and "legalHeaderValue (link_id l)"
      and "newURL (determineRedirectUrl newURL l) \<noteq> None"
  proof -
    from that(4) obtain u where "newURL (determineRedirectUrl newURL l) = Some u"
      by blast
    with that(1,2,3) show ?thesis
      by (simp add: GET_html_matched caching_disabled_def cache_lifetime_def header_html
          tracking_cache_control)
  qed
  have bad: "fst (GET newURL largeText (Slug s) db) = default_redirect ''public, max-age=60''
            \<and> fst (GET_html newURL largeText (Slug s) db)
                = default_redirect ''public, max-age=60''"
    if "matched (Slug s) db = Some l" and "\<not> legalHeaderValue (link_id l)"
    using that by (simp add: GET_matched_raise)
  have carried: "caching_disabled (fst (GET newURL largeText (Slug s) db))
            \<and> cache_lifetime (fst (GET newURL largeText (Slug s) db)) = None"
    if h: "header ''X-Cogiflow-Clicks'' (fst (GET newURL largeText (Slug s) db)) = Some v"
  proof (cases "matched (Slug s) db")
    case None
    then have "fst (GET newURL largeText (Slug s) db) = default_redirect ''public, max-age=300''
       \<or> fst (GET newURL largeText (Slug s) db) = default_redirect ''public, max-age=60''"
      unfolding GET_def by (rule GET_with_unmatched)
    with h show ?thesis
      by (auto simp: header_default)
  next
    case (Some k)
    show ?thesis
    proof (cases "update_mode db = UpdateThrows \<or> \<not> legalHeaderValue (link_id k)")
      case True
      with Some have "fst (GET newURL largeText (Slug s) db)
          = default_redirect ''public, max-age=60''"
        by (rule GET_matched_raise)
      with h show ?thesis
        by (simp add: header_default)
    next
      case False
      with Some show ?thesis
        by (simp add: ok)
    qed
  qed
  from err nf ok [of l] okh bad carried show ?thesis
    by (simp add: GET_def GET_html_def cache_lifetime_default)
qed

theorem cache_policy_by_outcome_witness:
  "trim ''tool'' \<noteq> [] \<and> list_all slugChar (toLowerCase (trim ''tool''))
   \<and> trim ''nope'' \<noteq> [] \<and> list_all slugChar (toLowerCase (trim ''nope''))
   \<and> cache_lifetime
        (fst (GET_html sampleURL sampleLargeText (Slug ''tool'')
                (sample_store (SelectFails ''08006'') UpdateOk)))
       = Some 60
   \<and> cache_lifetime
        (fst (GET_html sampleURL sampleLargeText (Slug ''nope'') (sample_store SelectOk UpdateOk)))
       = Some 300
   \<and> legalHeaderValue (link_id tool)
   \<and> header ''X-Cogiflow-Clicks''
        (fst (GET sampleURL sampleLargeText (Slug ''tool'') (sample_store SelectOk UpdateOk)))
       = Some ''6''
   \<and> caching_disabled
        (fst (GET_html sampleURL sampleLargeText (Slug ''tool'') (sample_store SelectOk UpdateOk)))
   \<and> cache_lifetime
        (fst (GET sampleURL sampleLargeText (Slug ''tool'') (sample_store SelectOk UpdateOk)))
       = None
   \<and> cache_lifetime
        (fst (GET sampleURL sampleLargeText (Slug ''tool'')
                (store_with line_feed_id SelectOk UpdateOk)))
       = Some 60"
proof -
  have v1: "trim ''tool'' \<noteq> []" and v2: "list_all slugChar (toLowerCase (trim ''tool''))"
    and w1: "trim ''nope'' \<noteq> []" and w2: "list_all slugChar (toLowerCase (trim ''nope''))"
    by (simp_all add: eval_strings)
  have e: "select_mode (sample_store (SelectFails ''08006'') UpdateOk) = SelectFails ''08006''
      \<and> ''08006'' \<noteq> ''PGRST116''"
    by (simp add: sample_store_def)
  have n: "select_mode (sample_store SelectOk UpdateOk) = SelectOk
      \<and> filter (\<lambda>r. slug r = toLowerCase (trim ''nope'') \<and> active r)
           (affiliate_links (sample_store SelectOk UpdateOk)) = []"
    by (simp add: sample_store_def tool_def eval_strings)
  have m: "matched (Slug ''tool'') (sample_store SelectOk UpdateOk) = Some tool
      \<and> update_mode (sample_store SelectOk UpdateOk) \<noteq> UpdateThrows"
    by (simp add: matched_def sample_store_def tool_def eval_strings)
  have g: "legalHeaderValue (link_id tool)"
    by (simp add: tool_def eval_headers)
  have d: "sampleURL (determineRedirectUrl sampleURL tool) \<noteq> None"
    by (simp add: determineRedirectUrl_def tool_def isValidUrl_def sampleURL_def hostOf_def)
  have h: "header ''X-Cogiflow-Clicks''
        (fst (GET sampleURL sampleLargeText (Slug ''tool'') (sample_store SelectOk UpdateOk)))
       = Some ''6''"
    by (simp add: sample_store_def tool_def GET_def GET_with_def GET_try_def
        select_single_def update_clicks_def nextClicks_def addOne_def emit_redirect_def
        tracking_headers_def NextResponse_redirect_def String_of_def digits.simps
        header_def eval_headers eval_strings)
  have m': "matched (Slug ''tool'') (store_with line_feed_id SelectOk UpdateOk)
       = Some line_feed_id"
    by (simp add: matched_def store_with_def line_feed_id_def tool_def eval_strings)
  have g': "\<not> legalHeaderValue (link_id line_feed_id)"
    by (simp add: line_feed_id_def tool_def eval_headers)
  have a: "cache_lifetime
        (fst (GET_html sampleURL sampleLargeText (Slug ''tool'')
                (sample_store (SelectFails ''08006'') UpdateOk)))
       = Some 60"
    using e cache_policy_by_outcome [OF v1 v2, where newURL = sampleURL
        and largeText = sampleLargeText
        and db = "sample_store (SelectFails ''08006'') UpdateOk" and c = "''08006''"]
    by blast
  have b: "cache_lifetime
        (fst (GET_html sampleURL sampleLargeText (Slug ''nope'') (sample_store SelectOk UpdateOk)))
       = Some 300"
    using n cache_policy_by_outcome [OF w1 w2, where newURL = sampleURL
        and largeText = sampleLargeText and db = "sample_store SelectOk UpdateOk"]
    by blast
  have c: "caching_disabled
        (fst (GET_html sampleURL sampleLargeText (Slug ''tool'') (sample_store SelectOk UpdateOk)))
      \<and> cache_lifetime
        (fst (GET sampleURL sampleLargeText (Slug ''tool'') (sample_store SelectOk UpdateOk)))
       = None"
    using m g d h cache_policy_by_outcome [OF v1 v2, where newURL = sampleURL
        and largeText = sampleLargeText and db = "sample_store SelectOk UpdateOk"
        and l = tool and v = "''6''"]
    by blast
  have f: "cache_lifetime
        (fst (GET sampleURL sampleLargeText (Slug ''tool'')
                (store_with line_feed_id SelectOk UpdateOk)))
       = Some 60"
    using m' g' cache_policy_by_outcome [OF v1 v2, where newURL = sampleURL
        and largeText = sampleLargeText
        and db = "store_with line_feed_id SelectOk UpdateOk" and l = line_feed_id]
    by blast
  from v1 v2 w1 w2 a b c f g h show ?thesis
    by simp
qed

subsection \<open>The slug that reaches the store\<close>

lemma GET_with_requests_valid:
  assumes "trim s \<noteq> []" and "list_all slugChar (toLowerCase (trim s))"
  shows "\<exists>rest. requests (snd (GET_with emit newURL largeText (Slug s) db))
           = requests db @ SelectSingle (toLowerCase (trim s)) # rest"
  using assms
  by (cases "select_mode db"; cases "update_mode db")
     (auto simp: GET_with_def GET_try_valid select_single_def update_clicks_def Let_def
        split: list.splits sum.splits)

text \<open>
  Claim C10. Sanitizing is idempotent and its results have only characters of the class.
  A raw slug passes validation exactly when a request reaches the store; the slug of
  that query is then the trimmed, lowercased input, it has only characters of the class,
  and sanitizing it again returns it unchanged.
\<close>

theorem sanitize_idempotent_fixpoint:
  "sanitize (sanitize s) = sanitize s
   \<and> list_all slugChar (sanitize s)
   \<and> (trim s \<noteq> [] \<and> sanitize s = toLowerCase (trim s) \<longrightarrow>
        (\<exists>rest. requests (snd (GET newURL largeText (Slug s) db))
                  = requests db @ SelectSingle (toLowerCase (trim s)) # rest)
        \<and> (\<exists>rest. requests (snd (GET_html newURL largeText (Slug s) db))
                  = requests db @ SelectSingle (toLowerCase (trim s)) # rest)
        \<and> list_all slugChar (toLowerCase (trim s))
        \<and> sanitize (toLowerCase (trim s)) = toLowerCase (trim s))
   \<and> (requests (snd (GET newURL largeText (Slug s) db)) \<noteq> requests db \<longrightarrow>
        trim s \<noteq> [] \<and> sanitize s = toLowerCase (trim s))"
proof -
  have idem: "sanitize (sanitize s) = sanitize s"
    by (simp add: sanitize_fix sanitize_slugChars)
  have reach: "(\<exists>rest. requests (snd (GET_with emit newURL largeText (Slug s) db))
                  = requests db @ SelectSingle (toLowerCase (trim s)) # rest)
        \<and> list_all slugChar (toLowerCase (trim s))
        \<and> sanitize (toLowerCase (trim s)) = toLowerCase (trim s)"
    if "trim s \<noteq> []" and "sanitize s = toLowerCase (trim s)" for emit
  proof -
    from that(2) have all: "list_all slugChar (toLowerCase (trim s))"
      using sanitize_slugChars [of s] by simp
    with that(1) show ?thesis
      by (simp add: GET_with_requests_valid sanitize_fix)
  qed
  have only: "trim s \<noteq> [] \<and> sanitize s = toLowerCase (trim s)"
    if "requests (snd (GET newURL largeText (Slug s) db)) \<noteq> requests db"
  proof (rule ccontr)
    assume "\<not> (trim s \<noteq> [] \<and> sanitize s = toLowerCase (trim s))"
    then have "trim s = [] \<or> \<not> list_all slugChar (toLowerCase (trim s))"
      by (auto simp: sanitize_def replaceDisallowed_fix)
    then have "GET newURL largeText (Slug s) db = (default_redirect ''public, max-age=300'', db)"
      by (simp add: GET_def GET_with_invalid)
    with that show False by simp
  qed
  from idem reach only show ?thesis
    by (simp add: GET_def GET_html_def sanitize_slugChars)
qed

theorem sanitize_idempotent_fixpoint_witness:
  "trim '' Make-IT_9 '' \<noteq> []
   \<and> sanitize '' Make-IT_9 '' = toLowerCase (trim '' Make-IT_9 '')
   \<and> sanitize '' Make-IT_9 '' = ''make-it_9''
   \<and> sanitize ''make-it_9'' = ''make-it_9''
   \<and> requests (snd (GET sampleURL sampleLargeText (Slug '' Make-IT_9 '') (sample_store SelectOk UpdateOk)))
       = [SelectSingle ''make-it_9'']"
proof -
  have a: "trim '' Make-IT_9 '' \<noteq> []"
    and b: "sanitize '' Make-IT_9 '' = toLowerCase (trim '' Make-IT_9 '')"
    and c: "toLowerCase (trim '' Make-IT_9 '') = ''make-it_9''"
    by (simp_all add: eval_strings)
  have r: "requests (snd (GET sampleURL sampleLargeText (Slug '' Make-IT_9 '') (sample_store SelectOk UpdateOk)))
       = [SelectSingle ''make-it_9'']"
    by (simp add: GET_def GET_with_def GET_try_def select_single_def sample_store_def tool_def
        eval_strings)
  have "requests (sample_store SelectOk UpdateOk) = []"
    by (simp add: sample_store_def)
  then show ?thesis
    using a b c r
      sanitize_idempotent_fixpoint [where s = "'' Make-IT_9 ''" and newURL = sampleURL
        and largeText = sampleLargeText and db = "sample_store SelectOk UpdateOk"]
    by auto
qed

end
